theory Spec2Isabelle
  imports Main
begin

section \<open>JavaScript values the relay handles\<close>

text \<open>
  The development embeds \<^verbatim>\<open>src/database/redis.js\<close> (the broker client) and
  \<^verbatim>\<open>src/services/socket.js\<close> (the WebSocket relay). Every function of the
  source becomes a function from the module state to an outcome and the new module state;
  a thrown exception (or a rejected promise) is the \<open>Inl\<close> of the outcome. Calls of
  the logger change nothing of the state and are left out.
\<close>

type_synonym channel = string
type_synonym room = string
type_synonym sid = string

text \<open>A thrown JavaScript error: its class and the text it carries.\<close>

datatype js_error = Error string | ReferenceError string | TypeError string

text \<open>
  Reading an identifier that no scope binds throws a \<^verbatim>\<open>ReferenceError\<close> (the
  files are ES modules, hence strict). \<^verbatim>\<open>connectState\<close>, \<^verbatim>\<open>messageData\<close>,
  \<^verbatim>\<open>back\<close> and \<^verbatim>\<open>info\<close> are read by the source and bound nowhere: neither
  module declares or imports them, and the properties the source puts on the global
  object are \<^verbatim>\<open>requestContext\<close> and names that begin with \<^verbatim>\<open>callback_\<close> or
  \<^verbatim>\<open>pattern_callback_\<close>.
\<close>

definition unbound :: "string \<Rightarrow> js_error + 'a" where
  "unbound name = Inl (ReferenceError name)"

text \<open>
  A function value: its \<^verbatim>\<open>name\<close> property (empty for an anonymous function) and
  its identity as an object.
\<close>

datatype handler = Fn (fn_name: string) (fn_id: nat)

text \<open>
  What a client's listener table can hold: a callback handed to
  \<^verbatim>\<open>subscribeTochannel\<close> itself, or one of the two closures that
  \<^verbatim>\<open>resubscribeTochannels\<close> builds around a callback's name.
\<close>

datatype listener = Callback handler | ResubPattern string | ResubChannel string

text \<open>The payload of \<^verbatim>\<open>publishToChannel\<close>: a string or an object.\<close>

datatype 'o message = MString string | MObject 'o

text \<open>\<^verbatim>\<open>Set.prototype.add\<close>: a JavaScript Set keeps insertion order and no duplicate.\<close>

definition set_add :: "'a list \<Rightarrow> 'a \<Rightarrow> 'a list" where
  "set_add xs x = (if x \<in> set xs then xs else xs @ [x])"

text \<open>The decimal text of a number, as a template literal renders \<^verbatim>\<open>Date.now()\<close>.\<close>

fun string_of_nat :: "nat \<Rightarrow> string" where
  "string_of_nat n =
     (if n < 10 then [''0123456789'' ! n]
      else string_of_nat (n div 10) @ [''0123456789'' ! (n mod 10)])"

declare string_of_nat.simps [simp del]

section \<open>The broker client: redis.js\<close>

subsection \<open>The clients of the redis library\<close>

text \<open>
  A client of the \<^verbatim>\<open>redis\<close> package, as far as the module uses it: whether it is
  open, its listeners per channel and per pattern (the package keeps a Set of listeners
  for each channel, and one subscription at the server for a channel that has listeners),
  and the messages it has accepted for sending.
\<close>

record client =
  isOpen :: bool
  channel_listeners :: "(channel \<times> listener) list"
  pattern_listeners :: "(channel \<times> listener) list"
  published :: "(channel \<times> string) list"

text \<open>
  Adding a listener to the Set of its channel: the same function object is held once; the
  closures of \<^verbatim>\<open>resubscribeTochannels\<close> are new objects at every call, so they are
  always added.
\<close>

definition add_listener ::
  "(channel \<times> listener) list \<Rightarrow> channel \<Rightarrow> listener \<Rightarrow> (channel \<times> listener) list" where
  "add_listener ls channel l =
     (case l of Callback h \<Rightarrow> set_add ls (channel, l) | _ \<Rightarrow> ls @ [(channel, l)])"

text \<open>
  The calls into the package return promises. \<open>reply\<close> is how the promise settles:
  \<open>None\<close> when it resolves, \<open>Some e\<close> when it rejects with \<open>e\<close> (the command
  could not be sent, the connection dropped, the command queue is full).
\<close>

definition client_subscribe ::
  "js_error option \<Rightarrow> client \<Rightarrow> channel \<Rightarrow> listener \<Rightarrow> (js_error + unit) \<times> client" where
  "client_subscribe reply c channel l =
     (case reply of
        Some e \<Rightarrow> (Inl e, c)
      | None \<Rightarrow> (Inr (), c\<lparr>channel_listeners := add_listener (channel_listeners c) channel l\<rparr>))"


definition client_publish ::
  "js_error option \<Rightarrow> client \<Rightarrow> channel \<Rightarrow> string \<Rightarrow> (js_error + unit) \<times> client" where
  "client_publish reply c channel messageString =
     (case reply of
        Some e \<Rightarrow> (Inl e, c)
      | None \<Rightarrow> (Inr (), c\<lparr>published := published c @ [(channel, messageString)]\<rparr>))"

subsection \<open>The module state\<close>

text \<open>
  \<^verbatim>\<open>connectionState.subscriptions\<close> is a Set of JSON texts of objects
  \<^verbatim>\<open>{channel, callback}\<close> with two string fields. Such a text determines the two
  strings and is determined by them (\<^verbatim>\<open>JSON.parse\<close> gives them back), so an entry is
  the pair (channel, callback name).
\<close>

record connection_state =
  isConnected :: bool
  lastError :: "js_error option"
  reconnectAttempts :: nat
  lastReconnectTime :: "nat option"
  subscriptions :: "(channel \<times> string) list"

text \<open>
  The module's variables, and the function-valued properties of the global object, which
  \<^verbatim>\<open>subscribeTochannel\<close> writes and the resubscription closures read.
\<close>

record redis_module =
  redisClient :: "client option"
  pubSubClient :: "client option"
  connectionState :: connection_state
  globals :: "string \<rightharpoonup> handler"

definition MAX_RECONNECT_ATTEMPTS :: nat where
  "MAX_RECONNECT_ATTEMPTS = 12"

definition BASE_RECONNECT_DELAY :: nat where
  "BASE_RECONNECT_DELAY = 1000"

subsection \<open>reconnectStrategy\<close>

text \<open>What the strategy hands back to the package: a delay in milliseconds, or an error.\<close>

datatype strategy_result = RetryIn nat | GiveUp js_error

text \<open>
  Both branches write to \<^verbatim>\<open>connectState\<close> before they return; the module's
  variable is \<^verbatim>\<open>connectionState\<close>. The branches below the read are what the source
  goes on to do with the object, were the name bound.
\<close>

definition reconnectStrategy :: "nat \<Rightarrow> js_error + strategy_result" where
  "reconnectStrategy retries =
     (if retries \<ge> MAX_RECONNECT_ATTEMPTS then
        (let error = Error (''Redis connection failed after ''
                            @ string_of_nat MAX_RECONNECT_ATTEMPTS @ '' attempts'') in
         case (unbound ''connectState'' :: js_error + connection_state) of
           Inl e \<Rightarrow> Inl e
         | Inr connectState \<Rightarrow> Inr (GiveUp error))
      else
        (case (unbound ''connectState'' :: js_error + connection_state) of
           Inl e \<Rightarrow> Inl e
         | Inr connectState \<Rightarrow>
             (let delay = min (BASE_RECONNECT_DELAY * 2 ^ retries) 60000 in
              Inr (RetryIn delay))))"

subsection \<open>subscribeTochannel\<close>

text \<open>
  \<^verbatim>\<open>callback.name || `callback_${Date.now()}`\<close>: the empty string is falsy, so an
  anonymous callback gets a name made from the clock.
\<close>

definition callbackName_of :: "nat \<Rightarrow> handler \<Rightarrow> string" where
  "callbackName_of now callback =
     (if fn_name callback \<noteq> [] then fn_name callback
      else ''callback_'' @ string_of_nat now)"

definition subscribeTochannel ::
  "nat \<Rightarrow> js_error option \<Rightarrow> redis_module \<Rightarrow> channel \<Rightarrow> handler
     \<Rightarrow> (js_error + unit) \<times> redis_module" where
  "subscribeTochannel now reply st channel callback =
     (case pubSubClient st of
        None \<Rightarrow> (Inl (Error ''Redis PubSub client not connected''), st)
      | Some c \<Rightarrow>
          if \<not> isOpen c then (Inl (Error ''Redis PubSub client not connected''), st)
          else
            (let callbackName = callbackName_of now callback;
                 st1 = (if fn_name callback = []
                        then st\<lparr>globals := (globals st)(callbackName \<mapsto> callback)\<rparr>
                        else st);
                 cs = connectionState st1;
                 st2 = st1\<lparr>connectionState :=
                          cs\<lparr>subscriptions := set_add (subscriptions cs) (channel, callbackName)\<rparr>\<rparr>
             in case client_subscribe reply c channel (Callback callback) of
                  (Inl error, c') \<Rightarrow> (Inl error, st2\<lparr>pubSubClient := Some c'\<rparr>)
                | (Inr u, c') \<Rightarrow> (Inr (), st2\<lparr>pubSubClient := Some c'\<rparr>)))"

subsection \<open>Resubscription after a reconnect\<close>





subsection \<open>publishToChannel\<close>

text \<open>
  \<open>stringify\<close> stands for \<^verbatim>\<open>JSON.stringify\<close> on the objects published: it
  gives the JSON text, or throws (a TypeError on an object that refers to itself or holds
  a BigInt). The conversion is inside the \<^verbatim>\<open>try\<close>, so its error is caught, logged
  and thrown again like that of the send.
\<close>

definition messageString_of :: "('o \<Rightarrow> js_error + string) \<Rightarrow> 'o message \<Rightarrow> js_error + string" where
  "messageString_of stringify message =
     (case message of MObject ob \<Rightarrow> stringify ob | MString s \<Rightarrow> Inr s)"

definition publishToChannel ::
  "('o \<Rightarrow> js_error + string) \<Rightarrow> js_error option \<Rightarrow> redis_module \<Rightarrow> channel \<Rightarrow> 'o message
     \<Rightarrow> (js_error + unit) \<times> redis_module" where
  "publishToChannel stringify reply st channel message =
     (case redisClient st of
        None \<Rightarrow> (Inl (Error ''Redis client not connected''), st)
      | Some c \<Rightarrow>
          if \<not> isOpen c then (Inl (Error ''Redis client not connected''), st)
          else
            (case messageString_of stringify message of
               Inl error \<Rightarrow> (Inl error, st)
             | Inr messageString \<Rightarrow>
                 (case client_publish reply c channel messageString of
                    (Inl error, c') \<Rightarrow> (Inl error, st\<lparr>redisClient := Some c'\<rparr>)
                  | (Inr u, c') \<Rightarrow> (Inr (), st\<lparr>redisClient := Some c'\<rparr>))))"

section \<open>The relay: socket.js\<close>

text \<open>
  The state of the relay: the rooms of the socket.io server (which socket is in which
  room, as \<^verbatim>\<open>socket.join\<close> and \<^verbatim>\<open>socket.leave\<close> of this file put them; the
  private room socket.io gives every socket is not tracked), the sockets that have a
  \<^verbatim>\<open>disconnect\<close> listener of this file (one entry per listener), the broker module,
  and the number of \<^verbatim>\<open>handleMesage\<close> closures made so far (each connection makes a
  new function object).
\<close>

record relay =
  rooms :: "(sid \<times> room) list"
  disconnect_listeners :: "sid list"
  redis :: redis_module
  closures :: nat

text \<open>The frame a client sends with a \<^verbatim>\<open>message\<close> event.\<close>

record 'o messageData =
  room :: room
  message :: "'o message"

text \<open>\<^verbatim>\<open>socket.join(room)\<close> adds the socket to the room's Set.\<close>

definition on_join :: "relay \<Rightarrow> sid \<Rightarrow> room \<Rightarrow> relay" where
  "on_join st socket r = st\<lparr>rooms := set_add (rooms st) (socket, r)\<rparr>"

text \<open>\<^verbatim>\<open>socket.leave(room)\<close> deletes the socket from the room's Set.\<close>

definition on_leave :: "relay \<Rightarrow> sid \<Rightarrow> room \<Rightarrow> relay" where
  "on_leave st socket r = st\<lparr>rooms := removeAll (socket, r) (rooms st)\<rparr>"

text \<open>
  The \<^verbatim>\<open>message\<close> handler. Its parameter is \<^verbatim>\<open>data\<close>; it destructures
  \<^verbatim>\<open>messageData\<close>, which is not bound, so the promise of the handler rejects there.
  What follows in the handler is the publish and, after it, the registration of the
  \<^verbatim>\<open>disconnect\<close> listener.
\<close>

definition on_message ::
  "('o \<Rightarrow> js_error + string) \<Rightarrow> js_error option \<Rightarrow> relay \<Rightarrow> sid \<Rightarrow> 'o messageData
     \<Rightarrow> (js_error + unit) \<times> relay" where
  "on_message stringify reply st socket data =
     (case (unbound ''messageData'' :: js_error + 'o messageData) of
        Inl e \<Rightarrow> (Inl e, st)
      | Inr md \<Rightarrow>
          (case publishToChannel stringify reply (redis st) (room md) (message md) of
             (Inl error, r') \<Rightarrow> (Inl error, st\<lparr>redis := r'\<rparr>)
           | (Inr u, r') \<Rightarrow>
               (Inr (), st\<lparr>redis := r',
                            disconnect_listeners := disconnect_listeners st @ [socket]\<rparr>)))"

text \<open>
  A disconnect: socket.io takes the socket out of every room, then calls the socket's
  \<^verbatim>\<open>disconnect\<close> listeners. The listener of this file evaluates
  \<^verbatim>\<open>logger,info(...)\<close>, a comma expression whose second operand calls the unbound
  \<^verbatim>\<open>info\<close>.
\<close>

definition on_disconnect :: "relay \<Rightarrow> sid \<Rightarrow> (js_error + unit) \<times> relay" where
  "on_disconnect st socket =
     (let st' = st\<lparr>rooms := filter (\<lambda>(s, r). s \<noteq> socket) (rooms st),
                    disconnect_listeners := removeAll socket (disconnect_listeners st)\<rparr>
      in if socket \<in> set (disconnect_listeners st)
         then ((unbound ''info'' :: js_error + unit), st')
         else (Inr (), st'))"

text \<open>
  \<^verbatim>\<open>handleMesage(message, channel)\<close>: \<^verbatim>\<open>io.to(channel).emit('message', message)\<close>
  sends the event to every socket in the room named by the channel. The result lists the
  frames sent: socket, event, payload.
\<close>

definition handleMesage :: "relay \<Rightarrow> string \<Rightarrow> channel \<Rightarrow> (sid \<times> string \<times> string) list" where
  "handleMesage st msg channel =
     map (\<lambda>(s, r). (s, ''message'', msg)) (filter (\<lambda>(s, r). r = channel) (rooms st))"

text \<open>
  The \<^verbatim>\<open>connection\<close> handler: it installs the listeners above, makes a new
  \<^verbatim>\<open>handleMesage\<close> closure and calls
  \<^verbatim>\<open>subscribeTochannel('chat:*', handleMesage)\<close>. The promise is dropped, so a
  rejection reaches nobody.
\<close>

definition on_connection :: "nat \<Rightarrow> js_error option \<Rightarrow> relay \<Rightarrow> sid \<Rightarrow> relay" where
  "on_connection now reply st socket =
     (let handleMesage_fn = Fn ''handleMesage'' (closures st);
          (outcome, r') = subscribeTochannel now reply (redis st) ''chat:*'' handleMesage_fn
      in st\<lparr>redis := r', closures := Suc (closures st)\<rparr>)"

text \<open>The events of a relay's life, and a run of them.\<close>

datatype 'o event =
    Connection sid nat "js_error option"
  | Join sid room
  | Leave sid room
  | Message sid "'o messageData" "js_error option"
  | Disconnect sid

fun step :: "('o \<Rightarrow> js_error + string) \<Rightarrow> relay \<Rightarrow> 'o event \<Rightarrow> relay" where
  "step stringify st (Connection s now reply) = on_connection now reply st s"
| "step stringify st (Join s r) = on_join st s r"
| "step stringify st (Leave s r) = on_leave st s r"
| "step stringify st (Message s d reply) = snd (on_message stringify reply st s d)"
| "step stringify st (Disconnect s) = snd (on_disconnect st s)"

fun run :: "('o \<Rightarrow> js_error + string) \<Rightarrow> relay \<Rightarrow> 'o event list \<Rightarrow> relay" where
  "run stringify st [] = st"
| "run stringify st (e # es) = run stringify (step stringify st e) es"

text \<open>
  The channel of a room is the room's name: the relay publishes a room's messages with
  \<^verbatim>\<open>publishToChannel(room, message)\<close> and fans a channel's messages out with
  \<^verbatim>\<open>io.to(channel)\<close>. So a room has a broker subscription when the pub/sub client
  has a listener for the channel of that name, and its members are the sockets in it.
\<close>

definition room_members :: "relay \<Rightarrow> room \<Rightarrow> sid list" where
  "room_members st r = map fst (filter (\<lambda>(s, r'). r' = r) (rooms st))"

definition subscribed_channels :: "redis_module \<Rightarrow> channel list" where
  "subscribed_channels m =
     (case pubSubClient m of None \<Rightarrow> [] | Some c \<Rightarrow> map fst (channel_listeners c))"

text \<open>The patterns the pub/sub client has listeners for.\<close>

definition subscribed_patterns :: "redis_module \<Rightarrow> channel list" where
  "subscribed_patterns m =
     (case pubSubClient m of None \<Rightarrow> [] | Some c \<Rightarrow> map fst (pattern_listeners c))"

definition room_subscribed :: "relay \<Rightarrow> room \<Rightarrow> bool" where
  "room_subscribed st r = (r \<in> set (subscribed_channels (redis st)))"

text \<open>The channels named in the registry kept for resubscription.\<close>

definition registry_channels :: "redis_module \<Rightarrow> channel list" where
  "registry_channels m = map fst (subscriptions (connectionState m))"

text \<open>A relay that has just started, over a broker module \<open>m\<close>.\<close>

definition fresh_relay :: "redis_module \<Rightarrow> relay" where
  "fresh_relay m = \<lparr>rooms = [], disconnect_listeners = [], redis = m, closures = 0\<rparr>"

text \<open>A new client, open; and a broker module with both clients open and nothing subscribed.\<close>

definition new_client :: client where
  "new_client = \<lparr>isOpen = True, channel_listeners = [], pattern_listeners = [], published = []\<rparr>"

definition module_connected :: redis_module where
  "module_connected =
     \<lparr>redisClient = Some new_client, pubSubClient = Some new_client,
      connectionState = \<lparr>isConnected = True, lastError = None, reconnectAttempts = 0,
                         lastReconnectTime = None, subscriptions = []\<rparr>,
      globals = Map.empty\<rparr>"

section \<open>States used in the examples\<close>

text \<open>
  Every subscription of the module, at the client and in the registry, is for the one
  channel text the relay passes to \<^verbatim>\<open>subscribeTochannel\<close>.
\<close>

definition fixed_channel_only :: "redis_module \<Rightarrow> bool" where
  "fixed_channel_only m =
     (set (subscribed_channels m) \<subseteq> {''chat:*''} \<and> set (subscribed_patterns m) \<subseteq> {''chat:*''}
      \<and> set (registry_channels m) \<subseteq> {''chat:*''})"

text \<open>One connection, which then joins the room \<^verbatim>\<open>lobby\<close>.\<close>

definition lobby_run :: relay where
  "lobby_run = run (\<lambda>u::unit. Inr ''{}'') (fresh_relay module_connected)
      [Connection ''a'' 0 None, Join ''a'' ''lobby'']"

text \<open>One connection, which then joins the room whose name is the text \<^verbatim>\<open>chat:*\<close>.\<close>

definition star_run :: relay where
  "star_run = run (\<lambda>u::unit. Inr ''{}'') (fresh_relay module_connected)
      [Connection ''a'' 0 None, Join ''a'' ''chat:*'']"

text \<open>Two sockets in \<^verbatim>\<open>lobby\<close>, one in \<^verbatim>\<open>hall\<close>.\<close>

definition two_rooms :: relay where
  "two_rooms = run (\<lambda>u::unit. Inr ''{}'') (fresh_relay module_connected)
      [Join ''a'' ''lobby'', Join ''b'' ''lobby'', Join ''c'' ''hall'']"

text \<open>One connection that has joined no room, and a chat message naming \<^verbatim>\<open>lobby\<close>.\<close>

definition connected_only :: relay where
  "connected_only =
     run (\<lambda>u::unit. Inr ''{}'') (fresh_relay module_connected) [Connection ''a'' 0 None]"

definition hi_lobby :: "unit messageData" where
  "hi_lobby = \<lparr>room = ''lobby'', message = MString ''hi''\<rparr>"

text \<open>
  The module after one subscription of \<^verbatim>\<open>lobby\<close>: with a function named
  \<^verbatim>\<open>onLobby\<close>; with an anonymous function at clock 1; and after the same anonymous
  function is subscribed again at clock 2.
\<close>

definition once_named :: redis_module where
  "once_named = snd (subscribeTochannel 1 None module_connected ''lobby'' (Fn ''onLobby'' 7))"

definition once_anonymous :: redis_module where
  "once_anonymous = snd (subscribeTochannel 1 None module_connected ''lobby'' (Fn [] 7))"

definition twice_anonymous :: redis_module where
  "twice_anonymous = snd (subscribeTochannel 2 None once_anonymous ''lobby'' (Fn [] 7))"



section \<open>Auxiliary facts\<close>

lemma set_set_add [simp]: "set (set_add xs x) = insert x (set xs)"
  by (auto simp: set_add_def)

lemma set_add_member [simp]: "x \<in> set xs \<Longrightarrow> set_add xs x = xs"
  by (simp add: set_add_def)

lemma set_add_idem [simp]: "set_add (set_add xs x) x = set_add xs x"
  by (simp add: set_add_def)

lemma set_add_listener [simp]: "set (add_listener ls ch l) = insert (ch, l) (set ls)"
  by (cases l) (simp_all add: add_listener_def)

lemma string_of_nat_digit: "n < 10 \<Longrightarrow> string_of_nat n = [''0123456789'' ! n]"
  by (simp add: string_of_nat.simps)

lemma callbackName_same:
  "fn_name callback \<noteq> [] \<or> now2 = now1
   \<Longrightarrow> callbackName_of now2 callback = callbackName_of now1 callback"
  by (auto simp: callbackName_of_def)

lemma room_members_iff: "s \<in> set (room_members st R) \<longleftrightarrow> (s, R) \<in> set (rooms st)"
  by (force simp: room_members_def)

text \<open>A subscription adds at most its own channel, at the client and in the registry.\<close>

lemma subscribeTochannel_channels:
  "set (subscribed_channels (snd (subscribeTochannel now reply m ch cb)))
     \<subseteq> insert ch (set (subscribed_channels m))"
proof (cases "pubSubClient m")
  case None
  then show ?thesis by (auto simp: subscribeTochannel_def)
next
  case (Some c)
  show ?thesis
  proof (cases reply)
    case None
    with Some show ?thesis
      by (auto simp: subscribeTochannel_def subscribed_channels_def client_subscribe_def Let_def)
  next
    case (Some e)
    with \<open>pubSubClient m = Some c\<close> show ?thesis
      by (auto simp: subscribeTochannel_def subscribed_channels_def client_subscribe_def Let_def)
  qed
qed

lemma subscribeTochannel_patterns:
  "subscribed_patterns (snd (subscribeTochannel now reply m ch cb)) = subscribed_patterns m"
proof (cases "pubSubClient m")
  case None
  then show ?thesis by (simp add: subscribeTochannel_def)
next
  case (Some c)
  then show ?thesis
    by (cases reply)
       (simp_all add: subscribeTochannel_def subscribed_patterns_def client_subscribe_def Let_def)
qed

lemma subscribeTochannel_registry:
  "set (registry_channels (snd (subscribeTochannel now reply m ch cb)))
     \<subseteq> insert ch (set (registry_channels m))"
proof (cases "pubSubClient m")
  case None
  then show ?thesis by (auto simp: subscribeTochannel_def)
next
  case (Some c)
  then show ?thesis
    by (cases reply)
       (auto simp: subscribeTochannel_def registry_channels_def client_subscribe_def Let_def)
qed

lemma subscribeTochannel_fixed:
  assumes "fixed_channel_only m"
  shows "fixed_channel_only (snd (subscribeTochannel now reply m ''chat:*'' cb))"
  using assms subscribeTochannel_channels [of now reply m "''chat:*''" cb]
    subscribeTochannel_registry [of now reply m "''chat:*''" cb]
  unfolding fixed_channel_only_def subscribeTochannel_patterns by blast

lemma on_connection_redis:
  "redis (on_connection now reply st s)
     = snd (subscribeTochannel now reply (redis st) ''chat:*'' (Fn ''handleMesage'' (closures st)))"
  by (simp add: on_connection_def Let_def split: prod.splits)

lemma on_connection_fixed:
  "fixed_channel_only (redis st) \<Longrightarrow> fixed_channel_only (redis (on_connection now reply st s))"
  by (simp add: on_connection_redis subscribeTochannel_fixed)

lemma on_connection_subscribes:
  assumes "pubSubClient (redis st) = Some c" and "isOpen c"
  shows "''chat:*'' \<in> set (subscribed_channels (redis (on_connection now None st s)))"
  using assms
  by (simp add: on_connection_redis subscribeTochannel_def subscribed_channels_def
      client_subscribe_def Let_def)

lemma on_message_redis: "redis (snd (on_message f reply st s d)) = redis st"
  by (simp add: on_message_def unbound_def)

lemma on_disconnect_redis: "redis (snd (on_disconnect st s)) = redis st"
  by (simp add: on_disconnect_def Let_def)

lemma step_fixed:
  "fixed_channel_only (redis st) \<Longrightarrow> fixed_channel_only (redis (step f st e))"
  by (cases e) (simp_all add: on_connection_fixed on_message_redis on_disconnect_redis
      on_join_def on_leave_def)

lemma run_fixed:
  "fixed_channel_only (redis st) \<Longrightarrow> fixed_channel_only (redis (run f st es))"
  by (induction es arbitrary: st) (simp_all add: step_fixed)

lemma module_connected_fixed: "fixed_channel_only module_connected"
  by (simp add: fixed_channel_only_def module_connected_def new_client_def
      subscribed_channels_def subscribed_patterns_def registry_channels_def)

text \<open>Two subscriptions of the same channel and callback, one after the other.\<close>

lemma subscribeTochannel_twice:
  assumes "fn_name callback \<noteq> [] \<or> now2 = now1"
  shows "subscribeTochannel now2 r2
           (snd (subscribeTochannel now1 r1 st channel callback)) channel callback
         = (fst (subscribeTochannel now1 r2 st channel callback),
            snd (subscribeTochannel now1 (case r1 of None \<Rightarrow> None | Some e \<Rightarrow> r2)
                   st channel callback))"
proof (cases "pubSubClient st")
  case None
  then show ?thesis by (simp add: subscribeTochannel_def)
next
  case (Some c)
  note name = callbackName_same [OF assms]
  show ?thesis
  proof (cases "isOpen c")
    case False
    with Some show ?thesis by (simp add: subscribeTochannel_def)
  next
    case True
    with Some name show ?thesis
      by (cases r1; cases r2)
         (simp_all add: subscribeTochannel_def client_subscribe_def add_listener_def Let_def)
  qed
qed

lemma string_of_nat_nonempty: "string_of_nat n \<noteq> []"
  by (subst string_of_nat.simps) simp

lemma digit_inj: "a < 10 \<Longrightarrow> b < 10 \<Longrightarrow> ''0123456789'' ! a = ''0123456789'' ! b \<Longrightarrow> a = (b::nat)"
proof -
  assume a: "a < 10" and b: "b < 10" and eq: "''0123456789'' ! a = ''0123456789'' ! b"
  have d: "distinct ''0123456789''" by simp
  have l: "length ''0123456789'' = 10" by simp
  from d a b eq l show "a = b" by (metis nth_eq_iff_index_eq)
qed

lemma string_of_nat_inj: "string_of_nat n = string_of_nat m \<Longrightarrow> n = m"
proof (induction n arbitrary: m rule: string_of_nat.induct)
  case (1 n)
  show ?case
  proof (cases "n < 10")
    case True
    then have n: "string_of_nat n = [''0123456789'' ! n]" by (simp add: string_of_nat_digit)
    show ?thesis
    proof (cases "m < 10")
      case mt: True
      then have "string_of_nat m = [''0123456789'' ! m]" by (simp add: string_of_nat_digit)
      with n "1.prems" have "''0123456789'' ! n = ''0123456789'' ! m" by simp
      with True mt show ?thesis by (rule digit_inj)
    next
      case False
      then have "string_of_nat m = string_of_nat (m div 10) @ [''0123456789'' ! (m mod 10)]"
        by (subst string_of_nat.simps) simp
      with n "1.prems" have "string_of_nat (m div 10) = []" by simp
      then show ?thesis by (simp add: string_of_nat_nonempty)
    qed
  next
    case False
    then have n: "string_of_nat n = string_of_nat (n div 10) @ [''0123456789'' ! (n mod 10)]"
      by (subst string_of_nat.simps) simp
    show ?thesis
    proof (cases "m < 10")
      case True
      then have "string_of_nat m = [''0123456789'' ! m]" by (simp add: string_of_nat_digit)
      with n "1.prems" have "string_of_nat (n div 10) = []" by simp
      then show ?thesis by (simp add: string_of_nat_nonempty)
    next
      case mf: False
      then have m: "string_of_nat m = string_of_nat (m div 10) @ [''0123456789'' ! (m mod 10)]"
        by (subst string_of_nat.simps) simp
      from n m "1.prems" have e1: "string_of_nat (n div 10) = string_of_nat (m div 10)"
        and e2: "''0123456789'' ! (n mod 10) = ''0123456789'' ! (m mod 10)" by simp_all
      from "1.IH" [OF False e1] have d: "n div 10 = m div 10" .
      have "n mod 10 = m mod 10" by (rule digit_inj [OF _ _ e2]) simp_all
      with d show ?thesis by (metis div_mult_mod_eq)
    qed
  qed
qed

lemma subscribeTochannel_registry_open:
  assumes "pubSubClient st = Some c" and "isOpen c"
  shows "subscriptions (connectionState (snd (subscribeTochannel now reply st channel callback)))
     = set_add (subscriptions (connectionState st)) (channel, callbackName_of now callback)"
    and "\<exists>c'. pubSubClient (snd (subscribeTochannel now reply st channel callback)) = Some c'
            \<and> isOpen c'"
  using assms
  by (cases reply; simp add: subscribeTochannel_def client_subscribe_def Let_def)+






section \<open>Properties of the broker client\<close>

text \<open>
  C5. The claim: the reconnection strategy returns the delay
  \<open>min (1000 * 2 ^ n) cap\<close> for retry \<open>n\<close>, and an error once the retries reach 12.
  The code: at every retry number the strategy throws a ReferenceError, because both
  branches assign to the unbound name \<^verbatim>\<open>connectState\<close> before they return; it never
  returns a delay and never returns the fatal error.
\<close>

theorem reconnectStrategy_throws:
  "reconnectStrategy retries = Inl (ReferenceError ''connectState'')"
  by (simp add: reconnectStrategy_def unbound_def)

theorem reconnectStrategy_throws_witness:
  "reconnectStrategy 0 = Inl (ReferenceError ''connectState'')
   \<and> reconnectStrategy 0 \<noteq> Inr (RetryIn 1000)
   \<and> reconnectStrategy 12 = Inl (ReferenceError ''connectState'')
   \<and> reconnectStrategy 12 \<noteq> Inr (GiveUp (Error ''Redis connection failed after 12 attempts''))"
  using reconnectStrategy_throws [of 0] reconnectStrategy_throws [of 12] by simp

text \<open>
  C6. Subscribing is idempotent when the callback goes by the same name at both calls,
  that is, for every function that has a name, and for an anonymous function subscribed
  twice at the same clock value. Whatever the client answers to the two underlying
  subscribe calls (\<open>r1\<close>, \<open>r2\<close>), the second call returns what a single call
  answered \<open>r2\<close> returns, and leaves the module (registry, global object, client
  listeners) in the state a single call leaves: a single call that succeeded when the
  first of the two did, and one answered as the second otherwise. So the second call adds
  no further registry entry and no further listener, and changes nothing when the first
  call succeeded. For an anonymous function subscribed at two different clock values,
  with the pub/sub client open, the registry afterwards holds the two different entries
  \<^verbatim>\<open>callback_\<close>\<open>now1\<close> and \<^verbatim>\<open>callback_\<close>\<open>now2\<close> for the channel.
\<close>

theorem subscribeTochannel_idempotent:
  "(fn_name callback \<noteq> [] \<or> now2 = now1 \<longrightarrow>
      subscribeTochannel now2 r2
         (snd (subscribeTochannel now1 r1 st channel callback)) channel callback
       = (fst (subscribeTochannel now1 r2 st channel callback),
          snd (subscribeTochannel now1 (case r1 of None \<Rightarrow> None | Some e \<Rightarrow> r2)
                 st channel callback)))
   \<and> (fn_name callback = [] \<and> now2 \<noteq> now1 \<and> pubSubClient st = Some c \<and> isOpen c \<longrightarrow>
        ''callback_'' @ string_of_nat now1 \<noteq> ''callback_'' @ string_of_nat now2
        \<and> {(channel, ''callback_'' @ string_of_nat now1), (channel, ''callback_'' @ string_of_nat now2)}
            \<subseteq> set (subscriptions (connectionState (snd (subscribeTochannel now2 r2
                 (snd (subscribeTochannel now1 r1 st channel callback)) channel callback)))))"
proof (intro conjI impI)
  assume "fn_name callback \<noteq> [] \<or> now2 = now1"
  then show "subscribeTochannel now2 r2
         (snd (subscribeTochannel now1 r1 st channel callback)) channel callback
       = (fst (subscribeTochannel now1 r2 st channel callback),
          snd (subscribeTochannel now1 (case r1 of None \<Rightarrow> None | Some e \<Rightarrow> r2)
                 st channel callback))"
    by (rule subscribeTochannel_twice)
next
  assume a: "fn_name callback = [] \<and> now2 \<noteq> now1 \<and> pubSubClient st = Some c \<and> isOpen c"
  then show "''callback_'' @ string_of_nat now1 \<noteq> ''callback_'' @ string_of_nat now2"
    by (auto dest: string_of_nat_inj)
next
  assume a: "fn_name callback = [] \<and> now2 \<noteq> now1 \<and> pubSubClient st = Some c \<and> isOpen c"
  then have n: "callbackName_of now1 callback = ''callback_'' @ string_of_nat now1"
    "callbackName_of now2 callback = ''callback_'' @ string_of_nat now2"
    by (simp_all add: callbackName_of_def)
  define st1 where "st1 = snd (subscribeTochannel now1 r1 st channel callback)"
  from a have 1: "subscriptions (connectionState st1)
      = set_add (subscriptions (connectionState st)) (channel, callbackName_of now1 callback)"
    unfolding st1_def by (simp add: subscribeTochannel_registry_open(1))
  from a obtain c1 where c1: "pubSubClient st1 = Some c1" "isOpen c1"
    unfolding st1_def using subscribeTochannel_registry_open(2) by blast
  have 2: "subscriptions (connectionState (snd (subscribeTochannel now2 r2 st1 channel callback)))
      = set_add (subscriptions (connectionState st1)) (channel, callbackName_of now2 callback)"
    by (rule subscribeTochannel_registry_open(1) [OF c1])
  show "{(channel, ''callback_'' @ string_of_nat now1), (channel, ''callback_'' @ string_of_nat now2)}
            \<subseteq> set (subscriptions (connectionState (snd (subscribeTochannel now2 r2
                 (snd (subscribeTochannel now1 r1 st channel callback)) channel callback))))"
    unfolding st1_def [symmetric] 2 1 n by simp
qed

text \<open>
  A function named \<^verbatim>\<open>onLobby\<close> subscribed twice: one registry entry, one listener.
  An anonymous function subscribed at clocks 1 and 2: two registry entries.
\<close>

theorem subscribeTochannel_idempotent_witness:
  "subscribeTochannel 2 None once_named ''lobby'' (Fn ''onLobby'' 7) = (Inr (), once_named)
   \<and> subscriptions (connectionState once_named) = [(''lobby'', ''onLobby'')]
   \<and> pubSubClient once_named
       = Some (new_client\<lparr>channel_listeners := [(''lobby'', Callback (Fn ''onLobby'' 7))]\<rparr>)
   \<and> ''callback_'' @ string_of_nat 1 \<noteq> ''callback_'' @ string_of_nat 2
   \<and> {(''lobby'', ''callback_'' @ string_of_nat 1), (''lobby'', ''callback_'' @ string_of_nat 2)}
        \<subseteq> set (subscriptions (connectionState twice_anonymous))"
  using subscribeTochannel_idempotent
      [where callback = "Fn ''onLobby'' 7" and ?now2.0 = 2 and ?now1.0 = 1 and ?r1.0 = None
         and ?r2.0 = None and st = module_connected and channel = "''lobby''" and c = new_client]
    subscribeTochannel_idempotent
      [where callback = "Fn [] 7" and ?now2.0 = 2 and ?now1.0 = 1 and ?r1.0 = None
         and ?r2.0 = None and st = module_connected and channel = "''lobby''" and c = new_client]
  by (simp add: once_named_def twice_anonymous_def once_anonymous_def subscribeTochannel_def
      module_connected_def new_client_def
      callbackName_of_def client_subscribe_def add_listener_def set_add_def Let_def)

text \<open>
  The claim as stated, for every handler, fails for an anonymous function: the second
  call, one millisecond later, records a second registry entry under a new name.
\<close>

theorem subscribeTochannel_anonymous_counterexample:
  "subscriptions (connectionState once_anonymous) = [(''lobby'', ''callback_1'')]
   \<and> subscriptions (connectionState twice_anonymous)
       = [(''lobby'', ''callback_1''), (''lobby'', ''callback_2'')]
   \<and> twice_anonymous \<noteq> once_anonymous"
proof -
  have 1: "subscriptions (connectionState once_anonymous) = [(''lobby'', ''callback_1'')]"
    by (simp add: once_anonymous_def subscribeTochannel_def module_connected_def new_client_def
        callbackName_of_def client_subscribe_def add_listener_def set_add_def Let_def
        string_of_nat_digit)
  have 2: "subscriptions (connectionState twice_anonymous)
       = [(''lobby'', ''callback_1''), (''lobby'', ''callback_2'')]"
    by (simp add: twice_anonymous_def once_anonymous_def subscribeTochannel_def
        module_connected_def new_client_def
        callbackName_of_def client_subscribe_def add_listener_def set_add_def Let_def
        string_of_nat_digit)
  from 1 2 have "twice_anonymous \<noteq> once_anonymous" by auto
  with 1 2 show ?thesis by simp
qed



text \<open>
  C8. Publishing throws \<^verbatim>\<open>Redis client not connected\<close> whenever the client is null
  or not open, and then the module is unchanged: nothing is sent, nothing is kept for
  later. With an open client the text to send is the \<^verbatim>\<open>JSON.stringify\<close> of an
  object and a string as it is. The call then throws in two cases only, each time with
  the error it caught and with nothing recorded as sent: when the conversion of the
  object throws, and when the client's own \<^verbatim>\<open>publish\<close> rejects. Otherwise it
  succeeds and the client has the text for the channel.
\<close>

theorem publishToChannel_outcomes:
  "((redisClient st = None \<or> (\<exists>c. redisClient st = Some c \<and> \<not> isOpen c))
      \<longrightarrow> publishToChannel f reply st ch m = (Inl (Error ''Redis client not connected''), st))
   \<and> (redisClient st = Some c \<and> isOpen c \<longrightarrow>
        (messageString_of f m = Inl e \<longrightarrow> publishToChannel f reply st ch m = (Inl e, st))
      \<and> (messageString_of f m = Inr payload \<longrightarrow>
            publishToChannel f (Some e) st ch m = (Inl e, st)
          \<and> publishToChannel f None st ch m
              = (Inr (), st\<lparr>redisClient := Some (c\<lparr>published := published c @ [(ch, payload)]\<rparr>)\<rparr>)))
   \<and> messageString_of f (MString s) = Inr s
   \<and> messageString_of f (MObject ob) = f ob"
  by (auto simp: publishToChannel_def client_publish_def messageString_of_def Let_def)

theorem publishToChannel_outcomes_witness:
  "publishToChannel (\<lambda>u::unit. Inr ''{}'') None (module_connected\<lparr>redisClient := None\<rparr>)
       ''lobby'' (MString ''hi'')
     = (Inl (Error ''Redis client not connected''), module_connected\<lparr>redisClient := None\<rparr>)
   \<and> publishToChannel (\<lambda>u::unit. Inr ''{}'') None module_connected ''lobby'' (MObject ())
     = (Inr (), module_connected\<lparr>redisClient :=
          Some (new_client\<lparr>published := [(''lobby'', ''{}'')]\<rparr>)\<rparr>)
   \<and> publishToChannel (\<lambda>u::unit. Inr ''{}'') None module_connected ''lobby'' (MString ''hi'')
     = (Inr (), module_connected\<lparr>redisClient :=
          Some (new_client\<lparr>published := [(''lobby'', ''hi'')]\<rparr>)\<rparr>)
   \<and> publishToChannel (\<lambda>u::unit. Inl (TypeError ''Converting circular structure to JSON''))
        None module_connected ''lobby'' (MObject ())
     = (Inl (TypeError ''Converting circular structure to JSON''), module_connected)"
  using publishToChannel_outcomes [where st = "module_connected\<lparr>redisClient := None\<rparr>"
      and f = "\<lambda>u::unit. Inr ''{}''" and reply = None and ch = "''lobby''"
      and m = "MString ''hi''" and c = new_client and e = "Error []" and payload = "[]"]
    publishToChannel_outcomes [where st = module_connected
      and f = "\<lambda>u::unit. Inr ''{}''" and reply = None and ch = "''lobby''"
      and m = "MObject ()" and c = new_client and e = "Error []" and payload = "''{}''"]
    publishToChannel_outcomes [where st = module_connected
      and f = "\<lambda>u::unit. Inr ''{}''" and reply = None and ch = "''lobby''"
      and m = "MString ''hi''" and c = new_client and e = "Error []" and payload = "''hi''"]
    publishToChannel_outcomes [where st = module_connected
      and f = "\<lambda>u::unit. Inl (TypeError ''Converting circular structure to JSON'')"
      and reply = None and ch = "''lobby''"
      and m = "MObject ()" and c = new_client
      and e = "TypeError ''Converting circular structure to JSON''" and payload = "[]"]
  by (simp add: module_connected_def new_client_def messageString_of_def)

text \<open>
  The claim as stated, an error exactly when the client is not connected, fails: the
  client is open and \<^verbatim>\<open>publishToChannel\<close> throws, once because the client's
  \<^verbatim>\<open>publish\<close> rejects, once because the object cannot be converted.
\<close>

theorem publishToChannel_connected_counterexample:
  "redisClient module_connected = Some new_client \<and> isOpen new_client
   \<and> publishToChannel (\<lambda>u::unit. Inr ''{}'') (Some (Error ''The queue is full''))
        module_connected ''lobby'' (MString ''hi'')
      = (Inl (Error ''The queue is full''), module_connected)
   \<and> publishToChannel (\<lambda>u::unit. Inl (TypeError ''Converting circular structure to JSON''))
        None module_connected ''lobby'' (MObject ())
      = (Inl (TypeError ''Converting circular structure to JSON''), module_connected)"
  by (simp add: publishToChannel_def client_publish_def module_connected_def new_client_def
      messageString_of_def)

text \<open>
  C10. Calling \<^verbatim>\<open>subscribeTochannel\<close> while the pub/sub client is null or not open
  throws, and the whole module state, the subscription registry included, is as before.
\<close>

theorem subscribeTochannel_closed_records_nothing:
  assumes "pubSubClient st = None \<or> (\<exists>c. pubSubClient st = Some c \<and> \<not> isOpen c)"
  shows "subscribeTochannel now reply st channel callback
           = (Inl (Error ''Redis PubSub client not connected''), st)"
  using assms by (auto simp: subscribeTochannel_def)

theorem subscribeTochannel_closed_records_nothing_witness:
  "subscribeTochannel 5 None (module_connected\<lparr>pubSubClient := None\<rparr>) ''lobby'' (Fn [] 0)
     = (Inl (Error ''Redis PubSub client not connected''), module_connected\<lparr>pubSubClient := None\<rparr>)
   \<and> subscribeTochannel 5 None
        (module_connected\<lparr>pubSubClient := Some (new_client\<lparr>isOpen := False\<rparr>)\<rparr>)
        ''lobby'' (Fn ''onLobby'' 0)
     = (Inl (Error ''Redis PubSub client not connected''),
        module_connected\<lparr>pubSubClient := Some (new_client\<lparr>isOpen := False\<rparr>)\<rparr>)"
  using subscribeTochannel_closed_records_nothing
      [of "module_connected\<lparr>pubSubClient := None\<rparr>" 5 None "''lobby''" "Fn [] 0"]
    subscribeTochannel_closed_records_nothing
      [of "module_connected\<lparr>pubSubClient := Some (new_client\<lparr>isOpen := False\<rparr>)\<rparr>"
          5 None "''lobby''" "Fn ''onLobby'' 0"]
  by simp

section \<open>Properties of the relay\<close>

text \<open>
  C1. The broker subscriptions do not follow room membership. A join or a leave changes
  the rooms and nothing of the broker module; an accepted connection subscribes the one
  channel \<^verbatim>\<open>chat:*\<close> when the pub/sub client is open and the call succeeds; and
  from a state whose subscriptions are all for that channel, every run of relay events
  ends in such a state, whichever rooms have members.
\<close>

theorem subscriptions_ignore_rooms:
  "redis (on_join st s r) = redis st \<and> redis (on_leave st s r) = redis st
   \<and> (pubSubClient (redis st) = Some c \<and> isOpen c
        \<longrightarrow> ''chat:*'' \<in> set (subscribed_channels (redis (on_connection now None st s))))
   \<and> (fixed_channel_only (redis st) \<longrightarrow> fixed_channel_only (redis (run f st es)))"
  by (simp add: on_join_def on_leave_def run_fixed on_connection_subscribes)

theorem subscriptions_ignore_rooms_witness:
  "redis (on_join connected_only ''a'' ''lobby'') = redis connected_only
   \<and> redis (on_leave connected_only ''a'' ''lobby'') = redis connected_only
   \<and> ''chat:*'' \<in> set (subscribed_channels
        (redis (on_connection 0 None (fresh_relay module_connected) ''a'')))
   \<and> fixed_channel_only (redis lobby_run)"
  using subscriptions_ignore_rooms [of connected_only "''a''" "''lobby''" new_client 0
      "\<lambda>u::unit. Inr ''{}''" "[]"]
    subscriptions_ignore_rooms [of "fresh_relay module_connected" "''a''" "''lobby''" new_client 0
      "\<lambda>u::unit. Inr ''{}''" "[Connection ''a'' 0 None, Join ''a'' ''lobby'']"]
    module_connected_fixed
  by (simp add: lobby_run_def fresh_relay_def module_connected_def new_client_def)

text \<open>
  The claim as stated fails in both directions: \<^verbatim>\<open>lobby\<close> has a member and no
  subscription, and the channel \<^verbatim>\<open>chat:*\<close> is subscribed while the room of that name
  has no member.
\<close>

theorem subscription_iff_members_counterexample:
  "room_members lobby_run ''lobby'' = [''a''] \<and> \<not> room_subscribed lobby_run ''lobby''
   \<and> room_members lobby_run ''chat:*'' = [] \<and> room_subscribed lobby_run ''chat:*''"
  by (simp add: lobby_run_def fresh_relay_def module_connected_def new_client_def
      on_connection_def on_join_def subscribeTochannel_def callbackName_of_def
      client_subscribe_def add_listener_def set_add_def room_members_def room_subscribed_def
      subscribed_channels_def Let_def)

text \<open>
  C2. The fan-out for a message \<open>msg\<close> the broker delivers on the channel of room
  \<open>R\<close> sends a frame to a socket exactly when the socket is in \<open>R\<close>, and every frame
  is the \<^verbatim>\<open>message\<close> event carrying \<open>msg\<close>.
\<close>

theorem fan_out_reaches_exactly_the_room:
  "(s, ev, m) \<in> set (handleMesage st msg R)
     \<longleftrightarrow> (s \<in> set (room_members st R) \<and> ev = ''message'' \<and> m = msg)"
  by (auto simp: handleMesage_def room_members_iff)

theorem fan_out_reaches_exactly_the_room_witness:
  "handleMesage two_rooms ''hi'' ''lobby''
     = [(''a'', ''message'', ''hi''), (''b'', ''message'', ''hi'')]
   \<and> (''c'', ''message'', ''hi'') \<notin> set (handleMesage two_rooms ''hi'' ''lobby'')
   \<and> ''c'' \<notin> set (room_members two_rooms ''lobby'')"
  using fan_out_reaches_exactly_the_room
      [of "''c''" "''message''" "''hi''" two_rooms "''hi''" "''lobby''"]
  by (simp add: two_rooms_def fresh_relay_def on_join_def set_add_def handleMesage_def
      room_members_def)

text \<open>
  C3. The message handler makes no membership check: what it returns and what it does to
  the broker module are the same whatever the rooms are, so also whether or not the
  sender is in the room the message names.
\<close>

theorem on_message_ignores_membership:
  "fst (on_message f reply (st\<lparr>rooms := rs\<rparr>) s d) = fst (on_message f reply st s d)
   \<and> redis (snd (on_message f reply (st\<lparr>rooms := rs\<rparr>) s d))
       = redis (snd (on_message f reply st s d))"
  by (simp add: on_message_def unbound_def)

theorem on_message_ignores_membership_witness:
  "fst (on_message (\<lambda>u. Inr ''{}'') None (connected_only\<lparr>rooms := [(''a'', ''lobby'')]\<rparr>) ''a'' hi_lobby)
     = fst (on_message (\<lambda>u. Inr ''{}'') None connected_only ''a'' hi_lobby)
   \<and> redis (snd (on_message (\<lambda>u. Inr ''{}'') None (connected_only\<lparr>rooms := [(''a'', ''lobby'')]\<rparr>)
        ''a'' hi_lobby))
     = redis (snd (on_message (\<lambda>u. Inr ''{}'') None connected_only ''a'' hi_lobby))"
  using on_message_ignores_membership
      [where f = "\<lambda>u. Inr ''{}''" and reply = None and st = connected_only
         and rs = "[(''a'', ''lobby'')]" and s = "''a''" and d = hi_lobby]
  by simp

text \<open>
  The claim as stated fails: the sender is in no room, and the handler does not reject
  with a NotJoined error; it does with this message what it does for a member of the room.
\<close>

theorem on_message_not_joined_counterexample:
  "(''a'', ''lobby'') \<notin> set (rooms connected_only)
   \<and> fst (on_message (\<lambda>u. Inr ''{}'') None connected_only ''a'' hi_lobby) \<noteq> Inl (Error ''NotJoined'')
   \<and> fst (on_message (\<lambda>u. Inr ''{}'') None connected_only ''a'' hi_lobby)
       = fst (on_message (\<lambda>u. Inr ''{}'') None (on_join connected_only ''a'' ''lobby'') ''a'' hi_lobby)"
  by (simp add: connected_only_def fresh_relay_def on_connection_def on_message_def unbound_def
      on_join_def Let_def split: prod.splits)

text \<open>
  C4. A disconnect takes the socket out of every room it was in and leaves the other
  sockets where they were; the broker module, its subscriptions included, is as before.
\<close>

theorem disconnect_clears_rooms_keeps_subscriptions:
  "set (rooms (snd (on_disconnect st s))) = {(s', r). (s', r) \<in> set (rooms st) \<and> s' \<noteq> s}
   \<and> redis (snd (on_disconnect st s)) = redis st"
  by (auto simp: on_disconnect_def Let_def)

theorem disconnect_clears_rooms_keeps_subscriptions_witness:
  "rooms (snd (on_disconnect two_rooms ''a'')) = [(''b'', ''lobby''), (''c'', ''hall'')]
   \<and> redis (snd (on_disconnect two_rooms ''a'')) = redis two_rooms"
  using disconnect_clears_rooms_keeps_subscriptions [of two_rooms "''a''"]
  by (simp add: two_rooms_def fresh_relay_def on_join_def set_add_def on_disconnect_def Let_def)

text \<open>
  The claim as stated fails: the last member of the room \<^verbatim>\<open>chat:*\<close> disconnects,
  the room is empty, and the subscription of its channel is still there.
\<close>

theorem disconnect_keeps_subscription_counterexample:
  "room_members star_run ''chat:*'' = [''a'']
   \<and> room_members (snd (on_disconnect star_run ''a'')) ''chat:*'' = []
   \<and> room_subscribed (snd (on_disconnect star_run ''a'')) ''chat:*''"
  by (simp add: star_run_def fresh_relay_def module_connected_def new_client_def
      on_connection_def on_join_def subscribeTochannel_def callbackName_of_def
      client_subscribe_def add_listener_def set_add_def room_members_def room_subscribed_def
      subscribed_channels_def on_disconnect_def Let_def)

text \<open>
  C9. Room membership is a set: a second join of the same room by the same socket
  changes nothing, and a leave of a room the socket is not in changes nothing.
\<close>

theorem membership_is_a_set:
  "on_join (on_join st s r) s r = on_join st s r
   \<and> ((s, r) \<notin> set (rooms st) \<longrightarrow> on_leave st s r = st)"
  by (simp add: on_join_def on_leave_def)

theorem membership_is_a_set_witness:
  "on_join (on_join (fresh_relay module_connected) ''a'' ''lobby'') ''a'' ''lobby''
     = on_join (fresh_relay module_connected) ''a'' ''lobby''
   \<and> (''a'', ''lobby'') \<notin> set (rooms (fresh_relay module_connected))
   \<and> on_leave (fresh_relay module_connected) ''a'' ''lobby'' = fresh_relay module_connected"
  using membership_is_a_set [of "fresh_relay module_connected" "''a''" "''lobby''"]
  by (simp add: fresh_relay_def)

end
